theory Spec2Isabelle
  imports Complex_Main "HOL-Library.Multiset"
begin

section \<open>The CME recommendation pipeline\<close>

text \<open>
  A shallow embedding of \<^verbatim>\<open>app/services/physician_profile.py\<close> and
  \<^verbatim>\<open>app/services/cme_query.py\<close>.

  Conventions of the embedding:
  \<^item> Python \<^verbatim>\<open>int\<close> is \<open>int\<close>; \<^verbatim>\<open>Optional[T]\<close> is \<open>T option\<close>.
  \<^item> A \<^verbatim>\<open>str\<close> is a \<open>string\<close> whose characters are the code points below 256.
  \<^item> A Python float is modelled by the rational number it denotes. Credit counts are
    compared as such; the division that normalises a score rounds as the division of
    doubles does. The rank scores are sums of small whole numbers, which the floats of
    the source represent exactly, so they are \<open>int\<close> here.
  \<^item> An exception that leaves \<^verbatim>\<open>run_cme_query\<close> is a value \<open>Inl e\<close>.
  \<^item> The collaborators (similarity search, language model) are parameters, and every
    call made to a collaborator or to the database is recorded in a call log.
\<close>

subsection \<open>Strings\<close>

text \<open>\<^verbatim>\<open>str.isspace\<close> on the code points below 256.\<close>

definition is_space :: "char \<Rightarrow> bool" where
  "is_space c = ((of_char c :: nat) \<in> {9, 10, 11, 12, 13, 28, 29, 30, 31, 32, 133, 160})"

text \<open>\<^verbatim>\<open>s.strip()\<close>: whitespace is removed at both ends.\<close>

definition strip :: "string \<Rightarrow> string" where
  "strip s = rev (dropWhile is_space (rev (dropWhile is_space s)))"

text \<open>\<^verbatim>\<open>s.lower()\<close> on the code points below 256.\<close>

definition lower_char :: "char \<Rightarrow> char" where
  "lower_char c =
     (let n = (of_char c :: nat)
      in if (65 \<le> n \<and> n \<le> 90) \<or> (192 \<le> n \<and> n \<le> 222 \<and> n \<noteq> 215)
         then char_of (n + 32) else c)"

definition lower :: "string \<Rightarrow> string" where
  "lower s = map lower_char s"

text \<open>\<^verbatim>\<open>a in b\<close> for two strings: \<open>a\<close> occurs in \<open>b\<close> as a contiguous run.\<close>

fun starts_with :: "string \<Rightarrow> string \<Rightarrow> bool" where
  "starts_with [] ys = True"
| "starts_with (x # xs) [] = False"
| "starts_with (x # xs) (y # ys) = (x = y \<and> starts_with xs ys)"

fun str_in :: "string \<Rightarrow> string \<Rightarrow> bool" where
  "str_in a [] = (a = [])"
| "str_in a (y # ys) = (starts_with a (y # ys) \<or> str_in a ys)"

text \<open>The truth value of an optional string: \<^verbatim>\<open>None\<close> and \<^verbatim>\<open>""\<close> are false.\<close>

fun truthy :: "string option \<Rightarrow> bool" where
  "truthy None = False"
| "truthy (Some s) = (s \<noteq> [])"

text \<open>\<^verbatim>\<open>x or ""\<close> for an optional string.\<close>

fun or_empty :: "string option \<Rightarrow> string" where
  "or_empty None = []"
| "or_empty (Some s) = s"

text \<open>The decimal rendering of an integer, as an f-string prints it.\<close>

fun digits :: "nat \<Rightarrow> string" where
  "digits n =
     (if n < 10 then [char_of (48 + n)]
      else digits (n div 10) @ [char_of (48 + n mod 10)])"

declare digits.simps [simp del]

definition str_of_int :: "int \<Rightarrow> string" where
  "str_of_int i = (if i < 0 then CHR ''-'' # digits (nat (- i)) else digits (nat i))"

subsection \<open>Data model\<close>

text \<open>\<^verbatim>\<open>AskCMERequest\<close> (app/schemas/ask\_cme.py).\<close>

record AskCMERequest =
  req_question :: string
  req_physician_id :: "int option"
  req_specialty :: "string option"
  req_state :: "string option"
  req_preferred_format :: "string option"
  req_min_credits :: "rat option"
  req_credit_type :: "string option"
  req_travel_ok :: "bool option"

text \<open>\<^verbatim>\<open>CMERecommendation\<close> (app/schemas/ask\_cme.py).\<close>

record CMERecommendation =
  rec_cme_event_id :: int
  rec_title :: string
  rec_provider :: "string option"
  rec_credit_hours :: "rat option"
  rec_url :: "string option"
  rec_score :: "rat option"
  rec_rank :: int
  rec_reason :: "string option"

text \<open>
  \<^verbatim>\<open>CMEEvent\<close> (app/models/cme\_event.py), with the columns the pipeline reads.
  \<^verbatim>\<open>title\<close> is declared \<^verbatim>\<open>nullable=False\<close>; the other columns may be NULL.
\<close>

record CMEEvent =
  ev_id :: int
  ev_title :: string
  ev_credit_type :: "string option"
  ev_url :: "string option"
  ev_credits :: "rat option"
  ev_provider_name :: "string option"
  ev_format :: "string option"
  ev_audience :: "string option"

text \<open>The rows that the three queries of the profile builder select.\<close>

record physician_row =
  ph_id :: int
  ph_specialty_name :: "string option"

record preference_row =
  pr_physician_id :: int
  pr_travel_pref :: "string option"
  pr_modality_pref :: "string option"

record completed_row =
  co_physician_id :: int
  co_cme_event_id :: "int option"

text \<open>The database: the tables in row order.\<close>

record database =
  physician :: "physician_row list"
  physician_preference :: "preference_row list"
  physician_completed_cme :: "completed_row list"
  cme_event :: "CMEEvent list"

text \<open>The profile dictionary that \<^verbatim>\<open>build_effective_physician_profile\<close> returns.\<close>

record profile =
  prof_physician_id :: "int option"
  prof_specialty :: "string option"
  prof_state :: "string option"
  prof_preferred_format :: "string option"
  prof_min_credits :: "rat option"
  prof_credit_type :: "string option"
  prof_travel_ok :: "bool option"
  prof_missing_requirements :: "string list"
  prof_completed_cme_ids :: "int list"

text \<open>A chunk of the similarity search response, with the keys the pipeline reads.\<close>

record chunk =
  ch_source_id :: "int option"
  ch_chunk_text :: "string option"

text \<open>An entry of \<^verbatim>\<open>cme_map\<close>: \<^verbatim>\<open>{"score": ..., "chunks": [...]}\<close>.\<close>

record entry =
  score :: int
  chunks :: "chunk list"

text \<open>
  \<^verbatim>\<open>cme_map\<close> is a dictionary whose iteration order (the order of first insertion)
  decides ties in the sort, so it is an association list in insertion order.
\<close>

type_synonym cme_map = "(int \<times> entry) list"

type_synonym triple = "int \<times> entry \<times> CMEEvent"

datatype error =
  TransportError
| RuntimeError nat

datatype call = VectorSearch | ProfileStore | EventStore | LanguageModel

subsection \<open>Profile resolver\<close>

text \<open>\<^verbatim>\<open>fetchone()\<close> of a query \<^verbatim>\<open>WHERE key = :pid\<close>: the first matching row.\<close>

definition fetchone :: "('r \<Rightarrow> int) \<Rightarrow> int \<Rightarrow> 'r list \<Rightarrow> 'r option" where
  "fetchone key pid rows = find (\<lambda>r. key r = pid) rows"

text \<open>\<^verbatim>\<open>if pid:\<close> holds for an id that is present and not zero.\<close>

fun pid_truthy :: "int option \<Rightarrow> bool" where
  "pid_truthy None = False"
| "pid_truthy (Some p) = (p \<noteq> 0)"

text \<open>Step 1 of the lookup: the stored specialty fills an unset specialty.\<close>

definition fill_specialty :: "database \<Rightarrow> int \<Rightarrow> profile \<Rightarrow> profile" where
  "fill_specialty db pid p =
     (case fetchone ph_id pid (physician db) of
        None \<Rightarrow> p
      | Some physician_row \<Rightarrow>
          if \<not> truthy (prof_specialty p) \<and> truthy (ph_specialty_name physician_row)
          then p\<lparr>prof_specialty := ph_specialty_name physician_row\<rparr>
          else p)"

text \<open>Step 2: the stored preference row fills the format and sets \<open>travel_ok\<close>.\<close>

definition fill_preferences :: "database \<Rightarrow> int \<Rightarrow> profile \<Rightarrow> profile" where
  "fill_preferences db pid p =
     (case fetchone pr_physician_id pid (physician_preference db) of
        None \<Rightarrow> p
      | Some pref_row \<Rightarrow>
          (let p1 = (if \<not> truthy (prof_preferred_format p) \<and> truthy (pr_modality_pref pref_row)
                     then p\<lparr>prof_preferred_format := pr_modality_pref pref_row\<rparr>
                     else p);
               travel_pref = or_empty (pr_travel_pref pref_row)
           in if lower travel_pref \<in> set [''no_travel'', ''local_only'']
              then p1\<lparr>prof_travel_ok := Some False\<rparr>
              else p1\<lparr>prof_travel_ok := Some True\<rparr>))"

text \<open>Step 3: the completed ids of the physician, rows with a NULL id left out.\<close>

definition completed_ids_of :: "database \<Rightarrow> int \<Rightarrow> int list" where
  "completed_ids_of db pid =
     List.map_filter co_cme_event_id
       (filter (\<lambda>r. co_physician_id r = pid) (physician_completed_cme db))"

text \<open>The dictionary as first built, from the fields of the request.\<close>

definition seed_profile :: "AskCMERequest \<Rightarrow> profile" where
  "seed_profile request =
     \<lparr> prof_physician_id = req_physician_id request,
       prof_specialty = req_specialty request,
       prof_state = req_state request,
       prof_preferred_format = req_preferred_format request,
       prof_min_credits = req_min_credits request,
       prof_credit_type = req_credit_type request,
       prof_travel_ok = None,
       prof_missing_requirements = [],
       prof_completed_cme_ids = [] \<rparr>"

text \<open>The body of \<^verbatim>\<open>if pid:\<close>, steps 1 to 4.\<close>

definition lookup_physician :: "database \<Rightarrow> int \<Rightarrow> profile \<Rightarrow> profile" where
  "lookup_physician db pid p =
     (fill_preferences db pid (fill_specialty db pid p))
       \<lparr> prof_completed_cme_ids := completed_ids_of db pid,
         prof_missing_requirements := [] \<rparr>"

text \<open>Step 5: a format that is set is stripped and lowered; an unset \<open>travel_ok\<close> is true.\<close>

definition normalize_format :: "profile \<Rightarrow> profile" where
  "normalize_format p =
     (if truthy (prof_preferred_format p)
      then p\<lparr>prof_preferred_format := Some (lower (strip (or_empty (prof_preferred_format p))))\<rparr>
      else p)"

definition default_travel_ok :: "profile \<Rightarrow> profile" where
  "default_travel_ok p =
     (if prof_travel_ok p = None then p\<lparr>prof_travel_ok := Some True\<rparr> else p)"

definition build_effective_physician_profile :: "database \<Rightarrow> AskCMERequest \<Rightarrow> profile" where
  "build_effective_physician_profile db request =
     (let profile = seed_profile request;
          pid = req_physician_id request;
          profile = (if pid_truthy pid then lookup_physician db (the pid) profile else profile)
      in default_travel_ok (normalize_format profile))"

subsection \<open>Aggregation and ranking\<close>

text \<open>
  \<^verbatim>\<open>entry = cme_map.setdefault(int(cme_id), {"score": 0.0, "chunks": []})\<close> followed by
  the two updates of the entry. A new key goes to the end of the dictionary.
\<close>

fun add_chunk :: "cme_map \<Rightarrow> int \<Rightarrow> int \<Rightarrow> chunk \<Rightarrow> cme_map" where
  "add_chunk [] cme_id s ch = [(cme_id, \<lparr>score = 0 + s, chunks = [] @ [ch]\<rparr>)]"
| "add_chunk ((k, e) # m) cme_id s ch =
     (if k = cme_id
      then (k, e\<lparr>score := score e + s, chunks := chunks e @ [ch]\<rparr>) # m
      else (k, e) # add_chunk m cme_id s ch)"

text \<open>
  The loop \<^verbatim>\<open>for idx, ch in enumerate(chunks)\<close>: \<open>idx\<close> is the position of the head of
  the remaining chunks, \<open>total_chunks\<close> the length of the whole list.
\<close>

fun group_chunks :: "int \<Rightarrow> nat \<Rightarrow> chunk list \<Rightarrow> cme_map \<Rightarrow> cme_map" where
  "group_chunks total_chunks idx [] m = m"
| "group_chunks total_chunks idx (ch # rest) m =
     (case ch_source_id ch of
        None \<Rightarrow> group_chunks total_chunks (Suc idx) rest m
      | Some cme_id \<Rightarrow>
          group_chunks total_chunks (Suc idx) rest
            (add_chunk m cme_id (total_chunks - int idx) ch))"

definition build_cme_map :: "chunk list \<Rightarrow> cme_map" where
  "build_cme_map chs = group_chunks (int (length chs)) 0 chs []"

text \<open>
  \<^verbatim>\<open>sorted(cme_map.items(), key=lambda tup: tup[1]["score"], reverse=True)\<close>. Python's
  sort is stable also with \<^verbatim>\<open>reverse=True\<close>: items of equal score keep their order.
  \<open>sort_key\<close> is a stable insertion sort, here on the negated score.
\<close>

definition sort_events :: "cme_map \<Rightarrow> cme_map" where
  "sort_events m = sort_key (\<lambda>tup. - score (snd tup)) m"

subsection \<open>Metadata lookup\<close>

text \<open>
  \<^verbatim>\<open>db.query(CMEEvent).filter(CMEEvent.id.in_(candidate_ids)).all()\<close> and the dictionary
  \<^verbatim>\<open>{int(e.id): e for e in events}\<close>, in which a later row replaces an earlier one.
\<close>

definition load_events :: "database \<Rightarrow> int list \<Rightarrow> CMEEvent list" where
  "load_events db candidate_ids = filter (\<lambda>e. ev_id e \<in> set candidate_ids) (cme_event db)"

definition events_by_id :: "CMEEvent list \<Rightarrow> (int \<rightharpoonup> CMEEvent)" where
  "events_by_id events = map_of (rev (map (\<lambda>e. (ev_id e, e)) events))"

subsection \<open>Eligibility filter\<close>

text \<open>\<^verbatim>\<open>float(ev.credits or 0)\<close>: a missing credit count counts as zero.\<close>

fun credits_or_zero :: "rat option \<Rightarrow> rat" where
  "credits_or_zero None = 0"
| "credits_or_zero (Some c) = c"

text \<open>
  The local function \<^verbatim>\<open>_eligible\<close>, with the four variables it closes over as
  parameters. The branch of the credit type preference ends in \<^verbatim>\<open>pass\<close>.
\<close>

definition eligible ::
  "int set \<Rightarrow> rat option \<Rightarrow> string option \<Rightarrow> string option \<Rightarrow> CMEEvent \<Rightarrow> bool" where
  "eligible completed_cme_ids min_credits preferred_format credit_type_pref ev =
     (if ev_id ev \<in> completed_cme_ids then False
      else if (case min_credits of
                 None \<Rightarrow> False
               | Some m \<Rightarrow> credits_or_zero (ev_credits ev) < m) then False
      else if (case preferred_format of
                 None \<Rightarrow> False
               | Some pf \<Rightarrow>
                   pf \<noteq> [] \<and>
                   (let ev_fmt = lower (strip (or_empty (ev_format ev)))
                    in ev_fmt \<noteq> [] \<and> ev_fmt \<noteq> pf)) then False
      else if (case credit_type_pref of
                 None \<Rightarrow> False
               | Some ct \<Rightarrow>
                   ct \<noteq> [] \<and>
                   (let ev_ct = lower (strip (or_empty (ev_credit_type ev)))
                    in ev_ct \<noteq> [] \<and> \<not> str_in (lower (strip ct)) ev_ct)) then True
      else True)"

text \<open>
  The filtering loop over \<^verbatim>\<open>sorted_events\<close>; \<open>acc\<close> is \<^verbatim>\<open>filtered_events\<close>. The
  length test comes after the append, and ends the loop.
\<close>

fun filter_loop ::
  "(CMEEvent \<Rightarrow> bool) \<Rightarrow> (int \<rightharpoonup> CMEEvent) \<Rightarrow> int \<Rightarrow> cme_map \<Rightarrow> triple list \<Rightarrow> triple list" where
  "filter_loop ok by_id max_events [] acc = acc"
| "filter_loop ok by_id max_events ((cme_id, meta) # rest) acc =
     (case by_id cme_id of
        None \<Rightarrow> filter_loop ok by_id max_events rest acc
      | Some ev \<Rightarrow>
          if \<not> ok ev then filter_loop ok by_id max_events rest acc
          else (let acc' = acc @ [(cme_id, meta, ev)]
                in if int (length acc') \<ge> max_events then acc'
                   else filter_loop ok by_id max_events rest acc'))"

text \<open>The slice \<^verbatim>\<open>xs[:n]\<close>; a negative \<open>n\<close> counts from the end.\<close>

definition slice_to :: "'a list \<Rightarrow> int \<Rightarrow> 'a list" where
  "slice_to xs n =
     (if 0 \<le> n then take (nat n) xs else take (length xs - nat (- n)) xs)"

text \<open>The fallback loop over \<^verbatim>\<open>sorted_events[:max_events]\<close>.\<close>

definition fallback_events :: "(int \<rightharpoonup> CMEEvent) \<Rightarrow> int \<Rightarrow> cme_map \<Rightarrow> triple list" where
  "fallback_events by_id max_events sorted_events =
     List.map_filter
       (\<lambda>(cme_id, meta). map_option (\<lambda>ev. (cme_id, meta, ev)) (by_id cme_id))
       (slice_to sorted_events max_events)"

text \<open>Step 5 as a whole: the filter, and the fallback when nothing passed.\<close>

definition select_events ::
  "(CMEEvent \<Rightarrow> bool) \<Rightarrow> (int \<rightharpoonup> CMEEvent) \<Rightarrow> int \<Rightarrow> cme_map \<Rightarrow> triple list" where
  "select_events ok by_id max_events sorted_events =
     (let filtered_events = filter_loop ok by_id max_events sorted_events []
      in if filtered_events = [] then fallback_events by_id max_events sorted_events
         else filtered_events)"

subsection \<open>Division of floats\<close>

text \<open>
  A finite double is modelled by the rational number it denotes. The quotient of two
  doubles is the exact quotient rounded to a significand of 53 bits, ties to even. The
  numbers divided in step 8 are whole, and below \<open>2\<^sup>5\<^sup>3\<close> they are doubles themselves; their
  quotient is far from overflow and underflow.
\<close>

text \<open>The number of binary digits of a natural number.\<close>

fun bit_length :: "nat \<Rightarrow> nat" where
  "bit_length n = (if n = 0 then 0 else Suc (bit_length (n div 2)))"

declare bit_length.simps [simp del]

definition pow2 :: "int \<Rightarrow> rat" where
  "pow2 k = (if 0 \<le> k then 2 ^ nat k else 1 / 2 ^ nat (- k))"

text \<open>Rounding to the nearest whole number, a tie to the even one.\<close>

definition round_half_even :: "rat \<Rightarrow> int" where
  "round_half_even x =
     (let f = \<lfloor>x\<rfloor>; r = x - of_int f
      in if r < 1 / 2 then f else if 1 / 2 < r then f + 1 else if even f then f else f + 1)"

text \<open>
  \<open>a / b\<close> for two positive whole doubles: \<open>e\<close> is the exponent of the quotient
  (\<open>2\<^sup>e \<le> a / b < 2\<^sup>e\<^sup>+\<^sup>1\<close>), \<open>m\<close> its significand of 53 bits after rounding.
\<close>

definition float_div_pos :: "nat \<Rightarrow> nat \<Rightarrow> rat" where
  "float_div_pos a b =
     (let la = int (bit_length a); lb = int (bit_length b);
          e = (if b * 2 ^ bit_length a \<le> a * 2 ^ bit_length b then la - lb else la - lb - 1);
          m = round_half_even (of_nat a / of_nat b * pow2 (52 - e))
      in of_int m * pow2 (e - 52))"

text \<open>\<^verbatim>\<open>float(a) / float(b)\<close> for whole numbers, \<open>b\<close> not zero.\<close>

definition float_div :: "int \<Rightarrow> int \<Rightarrow> rat" where
  "float_div a b =
     (if a = 0 then 0
      else (if (a < 0) = (b < 0) then 1 else - 1) * float_div_pos (nat \<bar>a\<bar>) (nat \<bar>b\<bar>))"

subsection \<open>Recommendation builder\<close>

definition fallback_url :: "int \<Rightarrow> string" where
  "fallback_url cme_id = ''https://mycertiq-demo.local/cme/'' @ str_of_int cme_id"

definition reason_text :: string where
  "reason_text =
     ''High semantic similarity to your question and alignment with your profile/preferences.''"

text \<open>The default of the title, \<^verbatim>\<open>f"CME {cme_id}"\<close>.\<close>

definition placeholder_title :: "int \<Rightarrow> string" where
  "placeholder_title cme_id = ''CME '' @ str_of_int cme_id"

text \<open>
  \<^verbatim>\<open>getattr(ev, "title", default)\<close> is the attribute when the object has one, and the
  default otherwise. \<^verbatim>\<open>title\<close> is a mapped column of \<^verbatim>\<open>CMEEvent\<close>: every event has
  the attribute, whatever its value.
\<close>

definition getattr_title :: "CMEEvent \<Rightarrow> string \<Rightarrow> string" where
  "getattr_title ev fallback = ev_title ev"

text \<open>One pass of the loop of step 8.\<close>

definition make_recommendation :: "int \<Rightarrow> nat \<times> triple \<Rightarrow> CMERecommendation" where
  "make_recommendation max_score item =
     (case item of (rank_idx, cme_id, meta, ev) \<Rightarrow>
        \<lparr> rec_cme_event_id = cme_id,
          rec_title = getattr_title ev (placeholder_title cme_id),
          rec_provider = ev_provider_name ev,
          rec_credit_hours = ev_credits ev,
          rec_url = Some (if truthy (ev_url ev) then or_empty (ev_url ev) else fallback_url cme_id),
          rec_score = Some (if max_score \<noteq> 0 then float_div (score meta) max_score else 0),
          rec_rank = int rank_idx,
          rec_reason = Some reason_text \<rparr>)"

definition build_recommendations :: "triple list \<Rightarrow> CMERecommendation list" where
  "build_recommendations filtered_events =
     (let max_score = (case filtered_events of [] \<Rightarrow> 1 | (cme_id, meta, ev) # _ \<Rightarrow> score meta)
      in map (make_recommendation max_score) (List.enumerate 1 filtered_events))"

subsection \<open>The pipeline\<close>

definition empty_question_answer :: string where
  "empty_question_answer =
     ''Please provide a non-empty question about what CME you are looking for.''"

text \<open>The apostrophe of this sentence is U+2019 in the source.\<close>

definition no_match_answer :: string where
  "no_match_answer =
     ''I couldn't find any CME activities that match your question in the current catalog.''"

definition no_eligible_answer :: string where
  "no_eligible_answer =
     ''I found CME content in the system, but none matched the filters/preferences provided.''"

definition llm_fallback_answer :: string where
  "llm_fallback_answer =
     ''I found CME activities matching your question, but could not '' @
     ''generate a personalized explanation at this moment. '' @
     ''Here are the recommended CME activities based on semantic relevance.''"

text \<open>
  The collaborators.
  \<^item> \<open>vector_search query top_k\<close> is the POST to \<^verbatim>\<open>/vector/search\<close>: \<open>Inl e\<close> when the
    HTTP client raises, otherwise the status code and the decoded list of chunks.
  \<^item> \<open>llm question profile filtered_events\<close> is the chat completion and the read of
    \<^verbatim>\<open>completion.choices[0].message.content\<close>: \<open>None\<close> when anything inside the
    \<^verbatim>\<open>try\<close> block raises. The two messages sent are rendered from the question, the
    profile and \<^verbatim>\<open>filtered_events\<close> only, so the collaborator takes these three.
\<close>

type_synonym vector_search = "string \<Rightarrow> int \<Rightarrow> error + (nat \<times> chunk list)"

type_synonym language_model = "string \<Rightarrow> profile \<Rightarrow> triple list \<Rightarrow> string option"

type_synonym outcome = "error + (string \<times> CMERecommendation list)"

text \<open>Steps 2 to 5, on the variables of the source.\<close>

definition sorted_events_of :: "chunk list \<Rightarrow> cme_map" where
  "sorted_events_of chs = sort_events (build_cme_map chs)"

definition by_id_of :: "database \<Rightarrow> cme_map \<Rightarrow> (int \<rightharpoonup> CMEEvent)" where
  "by_id_of db sorted_events =
     (let candidate_ids = map fst sorted_events
      in events_by_id (load_events db candidate_ids))"

text \<open>\<^verbatim>\<open>_eligible\<close> closed over the values read from the profile in step 2.\<close>

definition eligible_for :: "profile \<Rightarrow> CMEEvent \<Rightarrow> bool" where
  "eligible_for prof =
     (let completed_cme_ids = set (prof_completed_cme_ids prof);
          min_credits = prof_min_credits prof;
          preferred_format = map_option (\<lambda>f. lower (strip f)) (prof_preferred_format prof);
          credit_type_pref = prof_credit_type prof
      in eligible completed_cme_ids min_credits preferred_format credit_type_pref)"

text \<open>\<^verbatim>\<open>filtered_events\<close> when the filtering loop ends, before the fallback.\<close>

definition filtered_before_fallback ::
  "database \<Rightarrow> profile \<Rightarrow> int \<Rightarrow> chunk list \<Rightarrow> triple list" where
  "filtered_before_fallback db prof max_events chs =
     filter_loop (eligible_for prof) (by_id_of db (sorted_events_of chs)) max_events
       (sorted_events_of chs) []"

text \<open>\<^verbatim>\<open>filtered_events\<close> after the fallback.\<close>

definition candidates :: "database \<Rightarrow> profile \<Rightarrow> int \<Rightarrow> chunk list \<Rightarrow> triple list" where
  "candidates db prof max_events chs =
     select_events (eligible_for prof) (by_id_of db (sorted_events_of chs)) max_events
       (sorted_events_of chs)"

text \<open>Step 7: the answer of the language model, or the fixed sentence.\<close>

definition answer_text :: "language_model \<Rightarrow> string \<Rightarrow> profile \<Rightarrow> triple list \<Rightarrow> string" where
  "answer_text llm question prof filtered_events =
     (case llm question prof filtered_events of
        Some content \<Rightarrow> strip content
      | None \<Rightarrow> llm_fallback_answer)"

definition run_cme_query ::
  "vector_search \<Rightarrow> language_model \<Rightarrow> database \<Rightarrow> AskCMERequest \<Rightarrow> int \<Rightarrow> int
     \<Rightarrow> outcome \<times> call list" where
  "run_cme_query vector_search llm db request vector_top_k max_events =
     (let question = strip (req_question request)
      in if question = [] then (Inr (empty_question_answer, []), [])
         else
           (case vector_search question vector_top_k of
              Inl e \<Rightarrow> (Inl e, [VectorSearch])
            | Inr (status_code, chs) \<Rightarrow>
                if status_code \<noteq> 200 then (Inl (RuntimeError status_code), [VectorSearch])
                else if chs = [] then (Inr (no_match_answer, []), [VectorSearch])
                else
                  (let prof = build_effective_physician_profile db request;
                       log = [VectorSearch] @
                             (if pid_truthy (req_physician_id request) then [ProfileStore] else []) @
                             [EventStore];
                       filtered_events = candidates db prof max_events chs
                   in if filtered_events = [] then (Inr (no_eligible_answer, []), log)
                      else (Inr (answer_text llm question prof filtered_events,
                                 build_recommendations filtered_events),
                            log @ [LanguageModel]))))"

subsection \<open>The aggregation as the specification words it\<close>

text \<open>
  The chunk at 0-based position \<open>i\<close> of a list of \<open>total_chunk_count\<close> chunks has the
  rank score \<open>total_chunk_count - i\<close>; the aggregate score of an entity is the sum of
  the rank scores of the chunks it owns.
\<close>

definition rank_score :: "nat \<Rightarrow> nat \<Rightarrow> int" where
  "rank_score total_chunk_count i = int total_chunk_count - int i"

definition aggregate_score_spec :: "chunk list \<Rightarrow> int \<Rightarrow> int" where
  "aggregate_score_spec chs e =
     sum_list (map (\<lambda>(i, ch). rank_score (length chs) i)
                (filter (\<lambda>(i, ch). ch_source_id ch = Some e) (List.enumerate 0 chs)))"

subsection \<open>Auxiliary functions of the proofs\<close>

text \<open>
  The score and the chunks that \<^verbatim>\<open>cme_map\<close> holds for a key (zero and the empty
  list for a key that is absent), and the sum of the rank scores that the rest of the loop
  will add for an entity.
\<close>

definition score_in :: "cme_map \<Rightarrow> int \<Rightarrow> int" where
  "score_in m k = (case map_of m k of None \<Rightarrow> 0 | Some e \<Rightarrow> score e)"

definition chunks_in :: "cme_map \<Rightarrow> int \<Rightarrow> chunk list" where
  "chunks_in m k = (case map_of m k of None \<Rightarrow> [] | Some e \<Rightarrow> chunks e)"

definition owned :: "int \<Rightarrow> nat \<times> chunk \<Rightarrow> bool" where
  "owned e = (\<lambda>(i, ch). ch_source_id ch = Some e)"

definition part_sum :: "int \<Rightarrow> nat \<Rightarrow> chunk list \<Rightarrow> int \<Rightarrow> int" where
  "part_sum n idx rest e =
     sum_list (map (\<lambda>(i, ch). n - int i) (filter (owned e) (List.enumerate idx rest)))"

subsection \<open>Example inputs\<close>

text \<open>Small requests, databases and collaborators on which the pipeline is run.\<close>

definition example_chunk :: "int \<Rightarrow> chunk" where
  "example_chunk e = \<lparr>ch_source_id = Some e, ch_chunk_text = Some ''text''\<rparr>"

definition example_event :: "int \<Rightarrow> string \<Rightarrow> CMEEvent" where
  "example_event i t =
     \<lparr> ev_id = i, ev_title = t, ev_credit_type = None, ev_url = None, ev_credits = None,
       ev_provider_name = None, ev_format = None, ev_audience = None \<rparr>"

definition example_db :: "completed_row list \<Rightarrow> CMEEvent list \<Rightarrow> database" where
  "example_db completed events =
     \<lparr> physician = [], physician_preference = [], physician_completed_cme = completed,
       cme_event = events \<rparr>"

definition example_request :: "string \<Rightarrow> int option \<Rightarrow> AskCMERequest" where
  "example_request q pid =
     \<lparr> req_question = q, req_physician_id = pid, req_specialty = None, req_state = None,
       req_preferred_format = None, req_min_credits = None, req_credit_type = None,
       req_travel_ok = None \<rparr>"

definition search_returning :: "chunk list \<Rightarrow> vector_search" where
  "search_returning chs query top_k = Inr (200, chs)"

definition llm_down :: language_model where
  "llm_down question prof filtered_events = None"

definition llm_echo :: language_model where
  "llm_echo question prof filtered_events = Some question"

definition example_recommendation :: "int \<Rightarrow> string \<Rightarrow> rat \<Rightarrow> int \<Rightarrow> CMERecommendation" where
  "example_recommendation i t s rk =
     \<lparr> rec_cme_event_id = i, rec_title = t, rec_provider = None, rec_credit_hours = None,
       rec_url = Some (fallback_url i), rec_score = Some s, rec_rank = rk,
       rec_reason = Some reason_text \<rparr>"

definition db_completed_only :: database where
  "db_completed_only =
     example_db [\<lparr>co_physician_id = 7, co_cme_event_id = Some 1\<rparr>]
       [example_event 1 ''Sepsis update'']"

definition db_two_events :: database where
  "db_two_events =
     example_db [\<lparr>co_physician_id = 7, co_cme_event_id = Some 1\<rparr>]
       [example_event 1 ''Sepsis update'', example_event 2 ''Airway management'']"

definition db_untitled :: database where
  "db_untitled = example_db [] [example_event 1 []]"

definition three_chunks :: "chunk list" where
  "three_chunks = [example_chunk 1, example_chunk 2, example_chunk 1]"

definition req7 :: AskCMERequest where
  "req7 = example_request ''sepsis'' (Some 7)"

definition chunks_1_1_2 :: "chunk list" where
  "chunks_1_1_2 = [example_chunk 1, example_chunk 1, example_chunk 2]"

definition chunks_9_1_2 :: "chunk list" where
  "chunks_9_1_2 = [example_chunk 9, example_chunk 1, example_chunk 2]"

definition req_min_credits_10 :: AskCMERequest where
  "req_min_credits_10 = (example_request ''sepsis'' None)\<lparr>req_min_credits := Some 10\<rparr>"

section \<open>Properties of the stages\<close>

lemma float_div_1_5: "float_div 1 5 = 3602879701896397 / 18014398509481984" by code_simp
lemma float_div_1_3: "float_div 1 3 = 6004799503160661 / 18014398509481984" by code_simp
lemma float_div_2_4: "float_div 2 4 = 1 / 2" by code_simp
lemma float_div_7_7: "float_div 7 7 = 1" by code_simp
lemma float_div_10_3: "float_div 10 3 = 7505999378950827 / 2251799813685248" by code_simp

lemma round_half_even_of_int: "round_half_even (of_int k) = k"
  by (simp add: round_half_even_def)

lemma float_div_pos_self: "0 < n \<Longrightarrow> float_div_pos n n = 1"
proof -
  assume "0 < n"
  have "(of_nat n / of_nat n * pow2 52 :: rat) = of_int (2 ^ 52)"
    using \<open>0 < n\<close> by (simp add: pow2_def)
  then have "round_half_even (of_nat n / of_nat n * pow2 52) = 2 ^ 52"
    by (simp only: round_half_even_of_int)
  then show ?thesis by (simp add: float_div_pos_def Let_def pow2_def)
qed

lemma float_div_self: "a \<noteq> 0 \<Longrightarrow> float_div a a = 1"
  by (simp add: float_div_def float_div_pos_self)

lemma bit_length_bounds: "0 < n \<Longrightarrow> 2 ^ (bit_length n - 1) \<le> n \<and> n < 2 ^ bit_length n"
proof (induction n rule: bit_length.induct)
  case (1 n)
  show ?case
  proof (cases "n div 2 = 0")
    case True
    with 1 have "n = 1" by presburger
    moreover have "bit_length (Suc 0) = 1"
      by (simp add: bit_length.simps [of "Suc 0"] bit_length.simps [of 0])
    ultimately show ?thesis by simp
  next
    case False
    then have pos: "0 < n div 2" by simp
    from "1.IH" [OF _ pos] "1.prems"
    have ih: "2 ^ (bit_length (n div 2) - 1) \<le> n div 2" "n div 2 < 2 ^ bit_length (n div 2)"
      by auto
    have bl: "bit_length n = Suc (bit_length (n div 2))"
      using "1.prems" by (subst bit_length.simps) simp
    have blpos: "0 < bit_length (n div 2)"
      using pos by (subst bit_length.simps) simp
    from ih(1) have "2 * 2 ^ (bit_length (n div 2) - 1) \<le> n" by linarith
    moreover have "2 * 2 ^ (bit_length (n div 2) - 1) = (2::nat) ^ bit_length (n div 2)"
      using blpos by (cases "bit_length (n div 2)") simp_all
    moreover from ih(2) have "n < 2 * 2 ^ bit_length (n div 2)" by linarith
    ultimately show ?thesis by (simp add: bl)
  qed
qed


lemma pow2_powi: "pow2 k = 2 powi k"
  by (simp add: pow2_def power_int_def inverse_eq_divide power_one_over)

lemma pow2_add: "pow2 (i + j) = pow2 i * pow2 j"
  by (simp add: pow2_powi power_int_add)

lemma pow2_pos: "0 < pow2 k"
  by (simp add: pow2_powi)

lemma pow2_nat: "pow2 (int n) = 2 ^ n"
  by (simp add: pow2_def)

lemma round_half_even_close: "\<bar>of_int (round_half_even x) - x\<bar> \<le> 1 / 2"
proof -
  have "of_int \<lfloor>x\<rfloor> \<le> x" "x < of_int \<lfloor>x\<rfloor> + 1" by linarith+
  then show ?thesis
    by (auto simp: round_half_even_def Let_def abs_le_iff)
qed

lemma exponent_bounds:
  assumes "0 < a" "0 < b"
  defines "e \<equiv> (if b * 2 ^ bit_length a \<le> a * 2 ^ bit_length b
                  then int (bit_length a) - int (bit_length b)
                  else int (bit_length a) - int (bit_length b) - 1)"
  shows "pow2 e \<le> of_nat a / of_nat b"
proof -
  let ?la = "bit_length a" and ?lb = "bit_length b"
  from bit_length_bounds [OF assms(1)] have a: "2 ^ (?la - 1) \<le> a" "a < 2 ^ ?la" by auto
  from bit_length_bounds [OF assms(2)] have b: "2 ^ (?lb - 1) \<le> b" "b < 2 ^ ?lb" by auto
  have bpos: "(0::rat) < of_nat b" using assms(2) by simp
  show ?thesis
  proof (cases "b * 2 ^ ?la \<le> a * 2 ^ ?lb")
    case True
    then have e: "e = int ?la - int ?lb" by (simp add: e_def)
    from True have "(of_nat (b * 2 ^ ?la) :: rat) \<le> of_nat (a * 2 ^ ?lb)"
      by (simp only: of_nat_le_iff)
    then have "(of_nat b :: rat) * pow2 (int ?la) \<le> of_nat a * pow2 (int ?lb)"
      by (simp add: pow2_nat)
    then have "pow2 (int ?la) / pow2 (int ?lb) \<le> (of_nat a :: rat) / of_nat b"
      using bpos pow2_pos [of "int ?lb"] by (simp add: field_simps)
    moreover have "pow2 e = pow2 (int ?la) / pow2 (int ?lb)"
      unfolding e pow2_powi by (simp add: power_int_diff)
    ultimately show ?thesis by simp
  next
    case False
    then have e: "e = int ?la - int ?lb - 1" by (simp add: e_def)
    have lapos: "0 < ?la" using assms(1) by (subst bit_length.simps) simp
    have "(2::rat) ^ (?la - 1) \<le> of_nat a"
      using a(1) by (metis of_nat_le_iff of_nat_numeral of_nat_power)
    moreover have "(of_nat b :: rat) \<le> 2 ^ ?lb"
      using b(2) by (metis less_imp_le of_nat_le_iff of_nat_numeral of_nat_power)
    ultimately have "(2::rat) ^ (?la - 1) / 2 ^ ?lb \<le> of_nat a / of_nat b"
      using bpos by (intro frac_le) simp_all
    moreover have "pow2 e = pow2 (int (?la - 1)) / pow2 (int ?lb)"
      unfolding e pow2_powi using lapos by (simp add: power_int_diff of_nat_diff)
    ultimately show ?thesis by (simp add: pow2_nat)
  qed
qed

lemma float_div_pos_close:
  assumes "0 < a" "0 < b"
  shows "\<bar>float_div_pos a b - of_nat a / of_nat b\<bar> \<le> of_nat a / of_nat b / 2 ^ 53"
proof -
  define e where "e = (if b * 2 ^ bit_length a \<le> a * 2 ^ bit_length b
                  then int (bit_length a) - int (bit_length b)
                  else int (bit_length a) - int (bit_length b) - 1)"
  define q :: rat where "q = of_nat a / of_nat b"
  define m where "m = round_half_even (q * pow2 (52 - e))"
  have fd: "float_div_pos a b = of_int m * pow2 (e - 52)"
    by (simp add: float_div_pos_def Let_def e_def m_def q_def)
  have le: "pow2 e \<le> q" unfolding e_def q_def by (rule exponent_bounds [OF assms])
  have inv: "pow2 (52 - e) * pow2 (e - 52) = 1"
    by (simp flip: pow2_add add: pow2_def)
  have "of_int m * pow2 (e - 52) - q = (of_int m - q * pow2 (52 - e)) * pow2 (e - 52)"
    using inv by (simp add: algebra_simps)
  then have "\<bar>of_int m * pow2 (e - 52) - q\<bar> = \<bar>of_int m - q * pow2 (52 - e)\<bar> * pow2 (e - 52)"
    using pow2_pos [of "e - 52"] by (simp add: abs_mult)
  also have "\<dots> \<le> 1 / 2 * pow2 (e - 52)"
    using round_half_even_close [of "q * pow2 (52 - e)"] pow2_pos [of "e - 52"]
    unfolding m_def by (intro mult_right_mono) simp_all
  also have "\<dots> = pow2 e / 2 ^ 53"
  proof -
    have "pow2 (e - 52) = pow2 e * pow2 (- 52)" using pow2_add [of e "- 52"] by simp
    then show ?thesis by (simp add: pow2_def)
  qed
  also have "\<dots> \<le> q / 2 ^ 53" using le by (simp add: divide_right_mono)
  finally show ?thesis unfolding fd q_def .
qed

lemma float_div_close:
  assumes "0 < x" "0 < y"
  shows "\<bar>float_div x y - of_int x / of_int y\<bar> \<le> of_int x / of_int y / 2 ^ 53"
proof -
  have "0 < nat x" "0 < nat y" using assms by simp_all
  from float_div_pos_close [OF this] assms show ?thesis
    by (simp add: float_div_def)
qed


lemma strip_all_space: "\<forall>c \<in> set s. is_space c \<Longrightarrow> strip s = []"
proof -
  assume "\<forall>c \<in> set s. is_space c"
  then have d: "dropWhile is_space s = []" by simp
  show ?thesis unfolding strip_def d by simp
qed

lemma keys_add_chunk:
  "map fst (add_chunk m c s ch) = (if c \<in> fst ` set m then map fst m else map fst m @ [c])"
  by (induction m c s ch rule: add_chunk.induct) auto

lemma map_of_add_chunk:
  "map_of (add_chunk m c s ch) k =
     (if k = c then Some \<lparr>score = score_in m c + s, chunks = chunks_in m c @ [ch]\<rparr>
      else map_of m k)"
  by (induction m c s ch rule: add_chunk.induct) (auto simp: score_in_def chunks_in_def)

lemma distinct_add_chunk:
  "distinct (map fst m) \<Longrightarrow> distinct (map fst (add_chunk m c s ch))"
  by (simp add: keys_add_chunk)

lemma part_sum_Nil: "part_sum n idx [] e = 0"
  by (simp add: part_sum_def)

lemma part_sum_Cons:
  "part_sum n idx (ch # rest) e =
     (if ch_source_id ch = Some e then n - int idx else 0) + part_sum n (Suc idx) rest e"
  by (simp add: part_sum_def owned_def)

lemma key_set_add_chunk: "fst ` set (add_chunk m c s ch) = insert c (fst ` set m)"
proof -
  have "set (map fst (add_chunk m c s ch)) = insert c (fst ` set m)"
    unfolding keys_add_chunk by auto
  then show ?thesis by simp
qed

lemma score_in_Nil: "score_in [] k = 0"
  by (simp add: score_in_def)

lemma chunks_in_Nil: "chunks_in [] k = []"
  by (simp add: chunks_in_def)

lemma distinct_group_chunks:
  "distinct (map fst m) \<Longrightarrow> distinct (map fst (group_chunks n idx rest m))"
  by (induction rest arbitrary: idx m) (auto simp: distinct_add_chunk split: option.splits)

lemma keys_group_chunks:
  "fst ` set (group_chunks n idx rest m) =
     fst ` set m \<union> {e. \<exists>ch \<in> set rest. ch_source_id ch = Some e}"
proof (induction rest arbitrary: idx m)
  case Nil
  show ?case by simp
next
  case (Cons ch rest)
  show ?case
  proof (cases "ch_source_id ch")
    case None
    then show ?thesis using Cons.IH [of "Suc idx" m] by auto
  next
    case (Some c)
    then show ?thesis
      using Cons.IH [of "Suc idx" "add_chunk m c (n - int idx) ch"]
      by (auto simp: key_set_add_chunk)
  qed
qed

lemma score_in_add_chunk:
  "score_in (add_chunk m c s ch) k = (if k = c then score_in m c + s else score_in m k)"
  by (simp add: score_in_def map_of_add_chunk)

lemma chunks_in_add_chunk:
  "chunks_in (add_chunk m c s ch) k = (if k = c then chunks_in m c @ [ch] else chunks_in m k)"
  by (simp add: chunks_in_def map_of_add_chunk)

lemma score_in_group_chunks:
  "score_in (group_chunks n idx rest m) e = score_in m e + part_sum n idx rest e"
  by (induction rest arbitrary: idx m)
     (auto simp: part_sum_Nil part_sum_Cons score_in_add_chunk split: option.splits)

lemma chunks_in_group_chunks:
  "chunks_in (group_chunks n idx rest m) e =
     chunks_in m e @ filter (\<lambda>ch. ch_source_id ch = Some e) rest"
  by (induction rest arbitrary: idx m)
     (auto simp: chunks_in_add_chunk split: option.splits)

lemma score_in_member:
  "distinct (map fst m) \<Longrightarrow> (k, e) \<in> set m \<Longrightarrow> score_in m k = score e"
  by (simp add: score_in_def)

lemma chunks_in_member:
  "distinct (map fst m) \<Longrightarrow> (k, e) \<in> set m \<Longrightarrow> chunks_in m k = chunks e"
  by (simp add: chunks_in_def)

lemma distinct_build_cme_map: "distinct (map fst (build_cme_map chs))"
  by (simp add: build_cme_map_def distinct_group_chunks)

lemma keys_build_cme_map:
  "set (map fst (build_cme_map chs)) = {e. \<exists>ch \<in> set chs. ch_source_id ch = Some e}"
  by (simp add: build_cme_map_def keys_group_chunks)

lemma score_build_cme_map:
  assumes "(k, e) \<in> set (build_cme_map chs)"
  shows "score e = part_sum (int (length chs)) 0 chs k"
proof -
  have "score_in (build_cme_map chs) k = score e"
    using assms distinct_build_cme_map by (rule score_in_member [rotated])
  moreover have "score_in (build_cme_map chs) k = part_sum (int (length chs)) 0 chs k"
    by (simp add: build_cme_map_def score_in_group_chunks score_in_Nil)
  ultimately show ?thesis by simp
qed

lemma chunks_build_cme_map:
  assumes "(k, e) \<in> set (build_cme_map chs)"
  shows "chunks e = filter (\<lambda>ch. ch_source_id ch = Some k) chs"
proof -
  have "chunks_in (build_cme_map chs) k = chunks e"
    using assms distinct_build_cme_map by (rule chunks_in_member [rotated])
  moreover have "chunks_in (build_cme_map chs) k = filter (\<lambda>ch. ch_source_id ch = Some k) chs"
    by (simp add: build_cme_map_def chunks_in_group_chunks chunks_in_Nil)
  ultimately show ?thesis by simp
qed

lemma mset_sort_events: "mset (sort_events m) = mset m"
  by (simp add: sort_events_def)

lemma set_sort_events: "set (sort_events m) = set m"
  by (simp add: sort_events_def)

lemma sorted_sort_events:
  "sorted_wrt (\<lambda>a b. score (snd b) \<le> score (snd a)) (sort_events m)"
proof -
  have "sorted (map (\<lambda>tup. - score (snd tup)) (sort_events m))"
    by (simp add: sort_events_def)
  then show ?thesis
    by (simp add: sorted_map sorted_wrt_iff_nth_less)
qed

lemma events_by_id_Some:
  assumes "events_by_id events k = Some ev"
  shows "ev_id ev = k \<and> ev \<in> set events"
proof -
  have "(k, ev) \<in> set (rev (map (\<lambda>e. (ev_id e, e)) events))"
    using assms unfolding events_by_id_def by (rule map_of_SomeD)
  then show ?thesis by auto
qed

lemma by_id_of_Some: "by_id_of db sorted_events k = Some ev \<Longrightarrow> ev_id ev = k"
  unfolding by_id_of_def Let_def by (drule events_by_id_Some) simp

lemma filter_loop_subset:
  "set (filter_loop ok b m xs acc) \<subseteq>
     set acc \<union> {(c, meta, ev). (c, meta) \<in> set xs \<and> b c = Some ev \<and> ok ev}"
proof (induction xs arbitrary: acc)
  case Nil
  show ?case by simp
next
  case (Cons x xs)
  obtain c meta where x: "x = (c, meta)" by (cases x)
  show ?case
  proof (cases "b c")
    case None
    then show ?thesis using Cons.IH [of acc] x by auto
  next
    case (Some ev)
    show ?thesis
    proof (cases "ok ev")
      case False
      then show ?thesis using Cons.IH [of acc] x Some by auto
    next
      case True
      then show ?thesis
        using Cons.IH [of "acc @ [(c, meta, ev)]"] x Some
        by (auto simp: Let_def)
    qed
  qed
qed

lemma filter_loop_length:
  "int (length acc) < m \<Longrightarrow> int (length (filter_loop ok b m xs acc)) \<le> m"
proof (induction xs arbitrary: acc)
  case Nil
  then show ?case by simp
next
  case (Cons x xs)
  obtain c meta where x: "x = (c, meta)" by (cases x)
  show ?case
  proof (cases "b c")
    case None
    then show ?thesis using Cons.IH [of acc] Cons.prems x by simp
  next
    case (Some ev)
    show ?thesis
    proof (cases "ok ev")
      case False
      then show ?thesis using Cons.IH [of acc] Cons.prems x Some by simp
    next
      case True
      show ?thesis
      proof (cases "m \<le> int (length (acc @ [(c, meta, ev)]))")
        case True
        then show ?thesis using Cons.prems x Some \<open>ok ev\<close> by (simp add: Let_def)
      next
        case False
        then have "int (length (acc @ [(c, meta, ev)])) < m" by simp
        from Cons.IH [OF this] show ?thesis
          using False x Some \<open>ok ev\<close> by (simp add: Let_def)
      qed
    qed
  qed
qed

lemma length_slice_to: "0 \<le> m \<Longrightarrow> int (length (slice_to xs m)) \<le> m"
  by (simp add: slice_to_def)

lemma slice_to_nonneg: "0 \<le> m \<Longrightarrow> slice_to xs m = take (nat m) xs"
  by (simp add: slice_to_def)

lemma length_fallback_events:
  "length (fallback_events b m xs) \<le> length (slice_to xs m)"
  by (simp add: fallback_events_def List.map_filter_def)

lemma fallback_events_member:
  "(c, meta, ev) \<in> set (fallback_events b m xs) \<Longrightarrow>
     b c = Some ev \<and> (c, meta) \<in> set (slice_to xs m)"
  by (auto simp: fallback_events_def List.map_filter_def)

lemma fallback_events_ids:
  "map fst (fallback_events b m xs) =
     filter (\<lambda>c. b c \<noteq> None) (map fst (slice_to xs m))"
  by (induction "slice_to xs m" arbitrary: xs)
     (auto simp: fallback_events_def List.map_filter_def filter_map comp_def split_def)

lemma length_build_recommendations:
  "length (build_recommendations fe) = length fe"
  by (simp add: build_recommendations_def Let_def)

lemma build_recommendations_Nil: "build_recommendations [] = []"
  by (simp add: build_recommendations_def)

lemma build_recommendations_empty_iff: "build_recommendations fe = [] \<longleftrightarrow> fe = []"
  using length_build_recommendations [of fe] by (metis length_0_conv)

lemma rank_make_recommendation: "rec_rank (make_recommendation ms item) = int (fst item)"
  by (simp add: make_recommendation_def split: prod.splits)

lemma id_make_recommendation: "rec_cme_event_id (make_recommendation ms item) = fst (snd item)"
  by (simp add: make_recommendation_def split: prod.splits)

lemma title_make_recommendation:
  "rec_title (make_recommendation ms item) = ev_title (snd (snd (snd item)))"
  by (simp add: make_recommendation_def getattr_title_def split: prod.splits)

lemma score_make_recommendation:
  "rec_score (make_recommendation ms item) =
     Some (if ms \<noteq> 0 then float_div (score (fst (snd (snd item)))) ms else 0)"
  by (simp add: make_recommendation_def split: prod.splits)

lemma ranks_build_recommendations:
  "map rec_rank (build_recommendations fe) = map int [1..<Suc (length fe)]"
proof -
  have "map rec_rank (build_recommendations fe) =
          map (\<lambda>item. int (fst item)) (List.enumerate 1 fe)"
    by (simp add: build_recommendations_def Let_def rank_make_recommendation comp_def)
  also have "\<dots> = map int (map fst (List.enumerate 1 fe))"
    by (simp only: map_map comp_def)
  also have "\<dots> = map int [1..<1 + length fe]"
    by (simp only: map_fst_enumerate)
  finally show ?thesis by (simp only: plus_1_eq_Suc)
qed

lemma ids_build_recommendations:
  "map rec_cme_event_id (build_recommendations fe) = map fst fe"
proof -
  have "map rec_cme_event_id (build_recommendations fe) =
          map (\<lambda>item. fst (snd item)) (List.enumerate 1 fe)"
    by (simp add: build_recommendations_def Let_def id_make_recommendation comp_def)
  also have "\<dots> = map fst (map snd (List.enumerate 1 fe))"
    by (simp only: map_map comp_def)
  finally show ?thesis by (simp only: map_snd_enumerate)
qed

lemma nth_build_recommendations:
  assumes "i < length fe"
  shows "build_recommendations fe ! i =
           make_recommendation (score (fst (snd (hd fe)))) (Suc i, fe ! i)"
proof -
  from assms obtain x rest where fe: "fe = x # rest" by (cases fe) auto
  have "(case fe of [] \<Rightarrow> 1 | (cme_id, meta, ev) # _ \<Rightarrow> score meta) = score (fst (snd (hd fe)))"
    by (simp add: fe split: prod.splits)
  then show ?thesis
    using assms by (simp add: build_recommendations_def Let_def nth_enumerate_eq)
qed

lemma part_sum_nonneg:
  "int idx + int (length rest) \<le> n \<Longrightarrow> 0 \<le> part_sum n idx rest e"
proof (induction rest arbitrary: idx)
  case Nil
  show ?case by (simp add: part_sum_Nil)
next
  case (Cons ch rest)
  from Cons.prems have "int (Suc idx) + int (length rest) \<le> n" by simp
  from Cons.IH [OF this] Cons.prems show ?case by (simp add: part_sum_Cons)
qed

lemma part_sum_pos:
  "int idx + int (length rest) \<le> n \<Longrightarrow> \<exists>ch \<in> set rest. ch_source_id ch = Some e \<Longrightarrow>
     0 < part_sum n idx rest e"
proof (induction rest arbitrary: idx)
  case Nil
  then show ?case by simp
next
  case (Cons ch rest)
  from Cons.prems(1) have le: "int (Suc idx) + int (length rest) \<le> n" by simp
  show ?case
  proof (cases "ch_source_id ch = Some e")
    case True
    with part_sum_nonneg [OF le, of e] Cons.prems(1) show ?thesis
      by (simp add: part_sum_Cons)
  next
    case False
    with Cons.prems(2) have "\<exists>ch \<in> set rest. ch_source_id ch = Some e" by auto
    from Cons.IH [OF le this] False show ?thesis by (simp add: part_sum_Cons)
  qed
qed

lemma score_pos_build_cme_map:
  assumes "(k, e) \<in> set (build_cme_map chs)"
  shows "0 < score e"
proof -
  from assms have "k \<in> fst ` set (build_cme_map chs)" by force
  then have "\<exists>ch \<in> set chs. ch_source_id ch = Some k"
    using keys_build_cme_map [of chs] by auto
  then have "0 < part_sum (int (length chs)) 0 chs k"
    by (intro part_sum_pos) simp_all
  then show ?thesis using score_build_cme_map [OF assms] by simp
qed

lemma set_slice_to: "set (slice_to xs m) \<subseteq> set xs"
  by (auto simp: slice_to_def dest: in_set_takeD)

lemma select_events_member:
  assumes "(c, meta, ev) \<in> set (select_events ok b m xs)"
  shows "(c, meta) \<in> set xs \<and> b c = Some ev"
proof (cases "filter_loop ok b m xs [] = []")
  case True
  then have "(c, meta, ev) \<in> set (fallback_events b m xs)"
    using assms by (simp add: select_events_def)
  then show ?thesis using fallback_events_member set_slice_to by fastforce
next
  case False
  then have "(c, meta, ev) \<in> set (filter_loop ok b m xs [])"
    using assms by (simp add: select_events_def)
  then show ?thesis using filter_loop_subset [of ok b m xs "[]"] by auto
qed

lemma candidates_score_pos:
  assumes "(c, meta, ev) \<in> set (candidates db prof m chs)"
  shows "0 < score meta"
proof -
  from assms have "(c, meta) \<in> set (sorted_events_of chs)"
    unfolding candidates_def by (auto dest: select_events_member)
  then have "(c, meta) \<in> set (build_cme_map chs)"
    by (simp add: sorted_events_of_def set_sort_events)
  then show ?thesis by (rule score_pos_build_cme_map)
qed

lemma run_main:
  assumes "strip (req_question r) \<noteq> []"
    and "vs (strip (req_question r)) k = Inr (200, chs)"
    and "chs \<noteq> []"
  shows "fst (run_cme_query vs llm db r k m) =
           (if candidates db (build_effective_physician_profile db r) m chs = []
            then Inr (no_eligible_answer, [])
            else Inr (answer_text llm (strip (req_question r))
                        (build_effective_physician_profile db r)
                        (candidates db (build_effective_physician_profile db r) m chs),
                      build_recommendations
                        (candidates db (build_effective_physician_profile db r) m chs)))"
  using assms by (simp add: run_cme_query_def Let_def)

lemma run_recs_cases:
  assumes "fst (run_cme_query vs llm db r k m) = Inr (a, recs)"
  shows "recs = [] \<or>
         (\<exists>chs. vs (strip (req_question r)) k = Inr (200, chs) \<and>
            candidates db (build_effective_physician_profile db r) m chs \<noteq> [] \<and>
            recs = build_recommendations
                     (candidates db (build_effective_physician_profile db r) m chs))"
  using assms
  by (auto simp: run_cme_query_def Let_def split: if_splits sum.splits prod.splits)

lemma run_log_llm:
  "LanguageModel \<in> set (snd (run_cme_query vs llm db r k m)) \<longleftrightarrow>
     (\<exists>chs. strip (req_question r) \<noteq> [] \<and> vs (strip (req_question r)) k = Inr (200, chs) \<and>
        chs \<noteq> [] \<and> candidates db (build_effective_physician_profile db r) m chs \<noteq> [])"
  by (auto simp: run_cme_query_def Let_def split: if_splits sum.splits prod.splits)

lemma eligible_for_not_completed:
  "eligible_for prof ev \<Longrightarrow> ev_id ev \<notin> set (prof_completed_cme_ids prof)"
  by (simp add: eligible_for_def eligible_def Let_def split: if_splits)

lemma eligible_credit_type:
  "eligible c mc pf ct ev = eligible c mc pf ct' ev"
  by (simp add: eligible_def)

lemma eligible_for_credit_type:
  "eligible_for (p\<lparr>prof_credit_type := ct\<rparr>) = eligible_for p"
proof
  fix ev
  show "eligible_for (p\<lparr>prof_credit_type := ct\<rparr>) ev = eligible_for p ev"
    by (simp add: eligible_for_def Let_def eligible_def)
qed

lemma candidates_credit_type:
  "candidates db (p\<lparr>prof_credit_type := ct\<rparr>) m chs = candidates db p m chs"
  by (simp add: candidates_def eligible_for_credit_type)

lemma fill_specialty_credit_type:
  "fill_specialty db pid (p\<lparr>prof_credit_type := ct\<rparr>) =
     (fill_specialty db pid p)\<lparr>prof_credit_type := ct\<rparr>"
  by (simp add: fill_specialty_def split: option.splits)

lemma fill_preferences_credit_type:
  "fill_preferences db pid (p\<lparr>prof_credit_type := ct\<rparr>) =
     (fill_preferences db pid p)\<lparr>prof_credit_type := ct\<rparr>"
  by (simp add: fill_preferences_def Let_def split: option.splits)

lemma completed_of_profile:
  "req_physician_id r = Some pid \<Longrightarrow> pid \<noteq> 0 \<Longrightarrow>
     prof_completed_cme_ids (build_effective_physician_profile db r) = completed_ids_of db pid"
  by (simp add: build_effective_physician_profile_def Let_def lookup_physician_def
       normalize_format_def default_travel_ok_def)

lemma seed_profile_credit_type:
  "seed_profile (r\<lparr>req_credit_type := ct\<rparr>) = (seed_profile r)\<lparr>prof_credit_type := ct\<rparr>"
  by (simp add: seed_profile_def)

lemma lookup_physician_credit_type:
  "lookup_physician db pid (p\<lparr>prof_credit_type := ct\<rparr>) =
     (lookup_physician db pid p)\<lparr>prof_credit_type := ct\<rparr>"
  by (simp add: lookup_physician_def fill_specialty_credit_type fill_preferences_credit_type)

lemma normalize_format_credit_type:
  "normalize_format (p\<lparr>prof_credit_type := ct\<rparr>) = (normalize_format p)\<lparr>prof_credit_type := ct\<rparr>"
  by (simp add: normalize_format_def)

lemma default_travel_ok_credit_type:
  "default_travel_ok (p\<lparr>prof_credit_type := ct\<rparr>) = (default_travel_ok p)\<lparr>prof_credit_type := ct\<rparr>"
  by (simp add: default_travel_ok_def)

lemma profile_credit_type:
  "build_effective_physician_profile db (r\<lparr>req_credit_type := ct\<rparr>) =
     (build_effective_physician_profile db r)\<lparr>prof_credit_type := ct\<rparr>"
  by (simp add: build_effective_physician_profile_def Let_def seed_profile_credit_type
        lookup_physician_credit_type normalize_format_credit_type default_travel_ok_credit_type)

lemma aggregate_score_spec_part_sum:
  "aggregate_score_spec chs e = part_sum (int (length chs)) 0 chs e"
  by (simp add: aggregate_score_spec_def part_sum_def owned_def rank_score_def)

section \<open>Properties of the pipeline\<close>

text \<open>
  Claim C1, as stated, fails on the fallback path. Physician 7 has completed event 1, the
  only event that owns a chunk. The filter rejects it, nothing else passes, and the
  fallback returns event 1.
\<close>

theorem completed_returned_by_fallback:
  "req_physician_id (example_request ''sepsis'' (Some 7)) = Some 7 \<and>
   completed_ids_of db_completed_only 7 = [1] \<and>
   fst (run_cme_query (search_returning [example_chunk 1]) llm_down db_completed_only
          (example_request ''sepsis'' (Some 7)) 24 5)
     = Inr (llm_fallback_answer, [example_recommendation 1 ''Sepsis update'' 1 1]) \<and>
   rec_cme_event_id (example_recommendation 1 ''Sepsis update'' 1 1) = 1"
  by code_simp

text \<open>
  Claim C1, amended: for a request with a physician id that is not zero, when at least one
  candidate passes the eligibility filter (so that the fallback is not taken), no entity id
  of the physician's completed set is in the returned recommendation list.
\<close>

theorem completed_excluded_when_filter_passes:
  assumes "req_physician_id r = Some pid" and "pid \<noteq> 0"
    and "vs (strip (req_question r)) k = Inr (200, chs)"
    and "filtered_before_fallback db (build_effective_physician_profile db r) m chs \<noteq> []"
    and "fst (run_cme_query vs llm db r k m) = Inr (a, recs)"
  shows "\<forall>rc \<in> set recs. rec_cme_event_id rc \<notin> set (completed_ids_of db pid)"
proof -
  let ?prof = "build_effective_physician_profile db r"
  let ?fe = "candidates db ?prof m chs"
  from run_recs_cases [OF assms(5)] assms(3)
  have recs: "recs = [] \<or> recs = build_recommendations ?fe" by auto
  have fe: "?fe = filtered_before_fallback db ?prof m chs"
    using assms(4) by (simp add: candidates_def select_events_def filtered_before_fallback_def)
  have "c \<notin> set (completed_ids_of db pid)" if "(c, meta, ev) \<in> set ?fe" for c meta ev
  proof -
    from that fe have "(c, meta, ev) \<in>
        set (filter_loop (eligible_for ?prof) (by_id_of db (sorted_events_of chs)) m
               (sorted_events_of chs) [])"
      by (simp add: filtered_before_fallback_def)
    with filter_loop_subset
    have "by_id_of db (sorted_events_of chs) c = Some ev \<and> eligible_for ?prof ev" by fastforce
    then have "ev_id ev = c" and "ev_id ev \<notin> set (prof_completed_cme_ids ?prof)"
      by (auto dest: by_id_of_Some eligible_for_not_completed)
    then show ?thesis using completed_of_profile [OF assms(1,2)] by simp
  qed
  then have "\<forall>c \<in> set (map fst ?fe). c \<notin> set (completed_ids_of db pid)" by auto
  then have "\<forall>c \<in> set (map rec_cme_event_id (build_recommendations ?fe)).
               c \<notin> set (completed_ids_of db pid)"
    by (simp only: ids_build_recommendations)
  with recs show ?thesis by auto
qed

theorem completed_excluded_when_filter_passes_witness:
  "req_physician_id (example_request ''sepsis'' (Some 7)) = Some 7 \<and> (7::int) \<noteq> 0 \<and>
   search_returning three_chunks (strip (req_question (example_request ''sepsis'' (Some 7)))) 24
     = Inr (200, three_chunks) \<and>
   filtered_before_fallback db_two_events
     (build_effective_physician_profile db_two_events (example_request ''sepsis'' (Some 7)))
     5 three_chunks \<noteq> [] \<and>
   fst (run_cme_query (search_returning three_chunks) llm_down db_two_events
          (example_request ''sepsis'' (Some 7)) 24 5)
     = Inr (llm_fallback_answer, [example_recommendation 2 ''Airway management'' 1 1]) \<and>
   rec_cme_event_id (example_recommendation 2 ''Airway management'' 1 1)
     \<notin> set (completed_ids_of db_two_events 7)"
proof -
  have h1: "req_physician_id (example_request ''sepsis'' (Some 7)) = Some 7" by code_simp
  have h2: "(7::int) \<noteq> 0" by simp
  have h3: "search_returning three_chunks
              (strip (req_question (example_request ''sepsis'' (Some 7)))) 24
            = Inr (200, three_chunks)" by (simp add: search_returning_def)
  have h4: "filtered_before_fallback db_two_events
     (build_effective_physician_profile db_two_events (example_request ''sepsis'' (Some 7)))
     5 three_chunks \<noteq> []" by code_simp
  have h5: "fst (run_cme_query (search_returning three_chunks) llm_down db_two_events
          (example_request ''sepsis'' (Some 7)) 24 5)
     = Inr (llm_fallback_answer, [example_recommendation 2 ''Airway management'' 1 1])"
    by code_simp
  from completed_excluded_when_filter_passes [OF h1 h2 h3 h4 h5]
  have "rec_cme_event_id (example_recommendation 2 ''Airway management'' 1 1)
          \<notin> set (completed_ids_of db_two_events 7)" by simp
  with h1 h2 h3 h4 h5 show ?thesis by blast
qed

lemma length_select_events:
  assumes "1 \<le> m"
  shows "int (length (select_events ok b m xs)) \<le> m"
proof (cases "filter_loop ok b m xs [] = []")
  case True
  have "int (length (fallback_events b m xs)) \<le> int (length (slice_to xs m))"
    using length_fallback_events [of b m xs] by simp
  also have "\<dots> \<le> m" using assms by (intro length_slice_to) simp
  finally show ?thesis using True by (simp add: select_events_def)
next
  case False
  have "int (length (filter_loop ok b m xs [])) \<le> m"
    using assms by (intro filter_loop_length) simp
  then show ?thesis using False by (simp add: select_events_def)
qed

text \<open>
  Claim C2 does not hold of the code: the fallback cuts \<^verbatim>\<open>sorted_events\<close> to its
  first \<open>max_events\<close> entries before it looks for their metadata, so an entity without
  metadata takes one of the places. Entities 9, 1 and 2 own one chunk each, in this
  order; events 1 and 2 are in the database, event 9 is not, and a minimum of 10 credits
  rejects both. With \<open>max_events = 2\<close> the fallback returns event 1 alone, not events 1
  and 2; with \<open>max_events = 1\<close> it returns the fixed sentence and no recommendation,
  although two entities have metadata. The filtering loop, on the same chunks without the
  minimum, passes over entity 9 and returns events 1 and 2.
\<close>

theorem fallback_spends_places_on_missing_metadata:
  "map fst (sorted_events_of chunks_9_1_2) = [9, 1, 2] \<and>
   by_id_of db_two_events (sorted_events_of chunks_9_1_2) 9 = None \<and>
   by_id_of db_two_events (sorted_events_of chunks_9_1_2) 1
     = Some (example_event 1 ''Sepsis update'') \<and>
   by_id_of db_two_events (sorted_events_of chunks_9_1_2) 2
     = Some (example_event 2 ''Airway management'') \<and>
   filtered_before_fallback db_two_events
     (build_effective_physician_profile db_two_events req_min_credits_10) 2 chunks_9_1_2 = [] \<and>
   fst (run_cme_query (search_returning chunks_9_1_2) llm_down db_two_events
          req_min_credits_10 24 2)
     = Inr (llm_fallback_answer, [example_recommendation 1 ''Sepsis update'' 1 1]) \<and>
   fst (run_cme_query (search_returning chunks_9_1_2) llm_down db_two_events
          req_min_credits_10 24 1)
     = Inr (''I found CME content in the system, but none matched the filters/preferences provided.'',
            []) \<and>
   fst (run_cme_query (search_returning chunks_9_1_2) llm_down db_two_events
          (example_request ''sepsis'' None) 24 2)
     = Inr (llm_fallback_answer,
            [example_recommendation 1 ''Sepsis update'' 1 1,
             example_recommendation 2 ''Airway management'' (1 / 2) 2])"
  by code_simp

text \<open>
  Claim C6: a question that is empty or made of whitespace only yields the fixed guidance
  sentence with an empty recommendation list, and the call log is empty: no call to the
  similarity search, to the database or to the language model.
\<close>

theorem blank_question_short_circuit:
  assumes "\<forall>c \<in> set (req_question r). is_space c"
  shows "run_cme_query vs llm db r k m = (Inr (empty_question_answer, []), [])"
  using strip_all_space [OF assms] by (simp add: run_cme_query_def)

theorem blank_question_short_circuit_witness:
  "is_space CHR '' '' \<and> is_space (CHR 0x09) \<and>
   run_cme_query (search_returning three_chunks) llm_echo db_two_events
     (example_request [CHR '' '', CHR 0x09] (Some 7)) 24 5
   = (Inr (empty_question_answer, []), [])"
proof -
  have s: "is_space CHR '' ''" "is_space (CHR 0x09)" by (simp_all add: is_space_def)
  then have "\<forall>c \<in> set (req_question (example_request [CHR '' '', CHR 0x09] (Some 7))). is_space c"
    by (simp add: example_request_def)
  from blank_question_short_circuit [OF this] s show ?thesis by blast
qed

text \<open>
  Claim C7, as stated, fails for \<open>max_events = 0\<close>: the loop appends the first eligible
  candidate before it compares the length with \<open>max_events\<close>, and one recommendation is
  returned.
\<close>

theorem one_recommendation_for_zero_max_events:
  "fst (run_cme_query (search_returning [example_chunk 1]) llm_down db_completed_only
          (example_request ''sepsis'' None) 24 0)
     = Inr (llm_fallback_answer, [example_recommendation 1 ''Sepsis update'' 1 1]) \<and>
   \<not> int (length [example_recommendation 1 ''Sepsis update'' 1 1]) \<le> 0"
  by code_simp

text \<open>
  Claim C7, amended: whenever \<^verbatim>\<open>run_cme_query\<close> returns, the rank fields of the list
  are exactly \<open>1..length\<close>, each equal to the position of its item; and when
  \<open>max_events\<close> is at least 1 the list has at most \<open>max_events\<close> items.
\<close>

theorem length_and_ranks:
  assumes "fst (run_cme_query vs llm db r k m) = Inr (a, recs)"
  shows "(1 \<le> m \<longrightarrow> int (length recs) \<le> m) \<and>
         map rec_rank recs = map int [1..<Suc (length recs)]"
proof -
  from run_recs_cases [OF assms] show ?thesis
  proof
    assume "recs = []"
    then show ?thesis by simp
  next
    assume "\<exists>chs. vs (strip (req_question r)) k = Inr (200, chs) \<and>
            candidates db (build_effective_physician_profile db r) m chs \<noteq> [] \<and>
            recs = build_recommendations
                     (candidates db (build_effective_physician_profile db r) m chs)"
    then obtain chs where recs: "recs = build_recommendations
                     (candidates db (build_effective_physician_profile db r) m chs)" by blast
    have "int (length recs) \<le> m" if "1 \<le> m"
      using length_select_events [OF that] 
      by (simp add: recs length_build_recommendations candidates_def)
    moreover have "map rec_rank recs = map int [1..<Suc (length recs)]"
      unfolding recs by (simp only: ranks_build_recommendations length_build_recommendations)
    ultimately show ?thesis by simp
  qed
qed

theorem length_and_ranks_witness:
  "fst (run_cme_query (search_returning three_chunks) llm_down db_two_events
          (example_request ''sepsis'' None) 24 1)
     = Inr (llm_fallback_answer, [example_recommendation 1 ''Sepsis update'' 1 1]) \<and>
   int (length [example_recommendation 1 ''Sepsis update'' 1 1]) \<le> 1 \<and>
   map rec_rank [example_recommendation 1 ''Sepsis update'' 1 1] = [1]"
proof -
  have h: "fst (run_cme_query (search_returning three_chunks) llm_down db_two_events
          (example_request ''sepsis'' None) 24 1)
     = Inr (llm_fallback_answer, [example_recommendation 1 ''Sepsis update'' 1 1])"
    by code_simp
  from length_and_ranks [OF h] h show ?thesis by simp
qed

text \<open>
  Claim C4: the keys of \<^verbatim>\<open>cme_map\<close> are the entity ids that own a chunk, each once;
  the score of an entity is the sum of the rank scores \<open>n - i\<close> of its chunks, and its
  chunks are those it owns, in order; chunks without an owner are left out. The sorted list
  has the same entries, in descending order of score. For the chunks of entities 1, 2, 1
  the scores are 4 and 2, entity 1 first.
\<close>

theorem aggregation_and_ranking:
  "distinct (map fst (build_cme_map chs)) \<and>
   fst ` set (build_cme_map chs) = {e. \<exists>ch \<in> set chs. ch_source_id ch = Some e} \<and>
   (\<forall>(e, en) \<in> set (build_cme_map chs).
      score en = aggregate_score_spec chs e \<and>
      chunks en = filter (\<lambda>ch. ch_source_id ch = Some e) chs) \<and>
   mset (sorted_events_of chs) = mset (build_cme_map chs) \<and>
   sorted_wrt (\<lambda>a b. score (snd b) \<le> score (snd a)) (sorted_events_of chs) \<and>
   map (\<lambda>(e, en). (e, score en))
     (sorted_events_of [\<lparr>ch_source_id = Some 1, ch_chunk_text = t1\<rparr>,
                        \<lparr>ch_source_id = Some 2, ch_chunk_text = t2\<rparr>,
                        \<lparr>ch_source_id = Some 1, ch_chunk_text = t3\<rparr>])
     = [(1, 4), (2, 2)]"
proof -
  have 1: "distinct (map fst (build_cme_map chs))" by (rule distinct_build_cme_map)
  have 2: "fst ` set (build_cme_map chs) = {e. \<exists>ch \<in> set chs. ch_source_id ch = Some e}"
    using keys_build_cme_map [of chs] by simp
  have 3: "\<forall>(e, en) \<in> set (build_cme_map chs).
      score en = aggregate_score_spec chs e \<and>
      chunks en = filter (\<lambda>ch. ch_source_id ch = Some e) chs"
    by (auto simp: aggregate_score_spec_part_sum dest: score_build_cme_map chunks_build_cme_map)
  have 4: "mset (sorted_events_of chs) = mset (build_cme_map chs)"
    by (simp add: sorted_events_of_def mset_sort_events)
  have 5: "sorted_wrt (\<lambda>a b. score (snd b) \<le> score (snd a)) (sorted_events_of chs)"
    unfolding sorted_events_of_def by (rule sorted_sort_events)
  have 6: "map (\<lambda>(e, en). (e, score en))
     (sorted_events_of [\<lparr>ch_source_id = Some 1, ch_chunk_text = t1\<rparr>,
                        \<lparr>ch_source_id = Some 2, ch_chunk_text = t2\<rparr>,
                        \<lparr>ch_source_id = Some 1, ch_chunk_text = t3\<rparr>])
     = [(1, 4), (2, 2)]"
    by (simp add: sorted_events_of_def sort_events_def build_cme_map_def)
  from 1 2 3 4 5 6 show ?thesis by blast
qed

theorem aggregation_and_ranking_witness:
  "(1, \<lparr>score = 4, chunks = [example_chunk 1, example_chunk 1]\<rparr>) \<in> set (build_cme_map three_chunks) \<and>
   aggregate_score_spec three_chunks 1 = 4 \<and>
   (2, \<lparr>score = 2, chunks = [example_chunk 2]\<rparr>) \<in> set (build_cme_map three_chunks) \<and>
   aggregate_score_spec three_chunks 2 = 2 \<and>
   map fst (sorted_events_of three_chunks) = [1, 2]"
proof -
  have m1: "(1, \<lparr>score = 4, chunks = [example_chunk 1, example_chunk 1]\<rparr>)
              \<in> set (build_cme_map three_chunks)" by code_simp
  have m2: "(2, \<lparr>score = 2, chunks = [example_chunk 2]\<rparr>) \<in> set (build_cme_map three_chunks)"
    by code_simp
  have o: "map fst (sorted_events_of three_chunks) = [1, 2]" by code_simp
  from aggregation_and_ranking [of three_chunks]
  have a: "\<forall>(e, en) \<in> set (build_cme_map three_chunks).
      score en = aggregate_score_spec three_chunks e \<and>
      chunks en = filter (\<lambda>ch. ch_source_id ch = Some e) three_chunks" by blast
  from a m1 have "aggregate_score_spec three_chunks 1 = 4" by fastforce
  moreover from a m2 have "aggregate_score_spec three_chunks 2 = 2" by fastforce
  ultimately show ?thesis using m1 m2 o by blast
qed

lemma run_full:
  assumes "strip (req_question r) \<noteq> []"
    and "vs (strip (req_question r)) k = Inr (200, chs)"
    and "chs \<noteq> []"
    and "candidates db (build_effective_physician_profile db r) m chs \<noteq> []"
  shows "run_cme_query vs llm db r k m =
           (Inr (answer_text llm (strip (req_question r))
                   (build_effective_physician_profile db r)
                   (candidates db (build_effective_physician_profile db r) m chs),
                 build_recommendations
                   (candidates db (build_effective_physician_profile db r) m chs)),
            [VectorSearch] @
            (if pid_truthy (req_physician_id r) then [ProfileStore] else []) @
            [EventStore] @ [LanguageModel])"
  using assms by (simp add: run_cme_query_def Let_def)

text \<open>
  Claim C5: for a request that reaches the call of the language model, when the call fails
  the pipeline still returns: the answer is the fixed fallback sentence, word for word, the
  recommendation list is the same non-empty list that the run with a working language
  model returns, and the same calls are made.
\<close>

theorem llm_failure_keeps_recommendations:
  assumes "LanguageModel \<in> set (snd (run_cme_query vs llm db r k m))"
    and "\<forall>question prof filtered_events. llm_failing question prof filtered_events = None"
  shows "\<exists>a recs. fst (run_cme_query vs llm db r k m) = Inr (a, recs) \<and> recs \<noteq> [] \<and>
           fst (run_cme_query vs llm_failing db r k m) =
             Inr (''I found CME activities matching your question, but could not generate a personalized explanation at this moment. Here are the recommended CME activities based on semantic relevance.'',
                  recs) \<and>
           snd (run_cme_query vs llm_failing db r k m) = snd (run_cme_query vs llm db r k m)"
proof -
  from assms(1) obtain chs where
    h: "strip (req_question r) \<noteq> []" "vs (strip (req_question r)) k = Inr (200, chs)"
       "chs \<noteq> []" "candidates db (build_effective_physician_profile db r) m chs \<noteq> []"
    unfolding run_log_llm by blast
  have f: "answer_text llm_failing q p fe =
             ''I found CME activities matching your question, but could not generate a personalized explanation at this moment. Here are the recommended CME activities based on semantic relevance.''"
    for q p fe
    using assms(2) by (simp add: answer_text_def llm_fallback_answer_def)
  show ?thesis
    unfolding run_full [where vs = vs and chs = chs, OF h] f
    using h(4) by (simp add: build_recommendations_empty_iff)
qed

theorem llm_failure_keeps_recommendations_witness:
  "LanguageModel \<in> set (snd (run_cme_query (search_returning three_chunks) llm_echo
                              db_two_events req7 24 5)) \<and>
   llm_down ''sepsis'' (build_effective_physician_profile db_two_events req7) [] = None \<and>
   run_cme_query (search_returning three_chunks) llm_echo db_two_events req7 24 5 =
     (Inr (''sepsis'', [example_recommendation 2 ''Airway management'' 1 1]),
      [VectorSearch, ProfileStore, EventStore, LanguageModel]) \<and>
   run_cme_query (search_returning three_chunks) llm_down db_two_events req7 24 5 =
     (Inr (''I found CME activities matching your question, but could not generate a personalized explanation at this moment. Here are the recommended CME activities based on semantic relevance.'',
           [example_recommendation 2 ''Airway management'' 1 1]),
      [VectorSearch, ProfileStore, EventStore, LanguageModel])"
proof -
  have h1: "LanguageModel \<in> set (snd (run_cme_query (search_returning three_chunks) llm_echo
                              db_two_events req7 24 5))" by code_simp
  have h2: "\<forall>question prof filtered_events. llm_down question prof filtered_events = None"
    by (simp add: llm_down_def)
  have e: "run_cme_query (search_returning three_chunks) llm_echo db_two_events req7 24 5 =
     (Inr (''sepsis'', [example_recommendation 2 ''Airway management'' 1 1]),
      [VectorSearch, ProfileStore, EventStore, LanguageModel])" by code_simp
  from llm_failure_keeps_recommendations [OF h1 h2]
  have "run_cme_query (search_returning three_chunks) llm_down db_two_events req7 24 5 =
     (Inr (''I found CME activities matching your question, but could not generate a personalized explanation at this moment. Here are the recommended CME activities based on semantic relevance.'',
           [example_recommendation 2 ''Airway management'' 1 1]),
      [VectorSearch, ProfileStore, EventStore, LanguageModel])"
    unfolding e by (simp add: prod_eq_iff)
  with h1 h2 e show ?thesis by simp
qed

text \<open>
  Claim C8: the score of every recommendation built from a non-empty candidate list is the
  quotient, as the division of doubles gives it, of the aggregate score of its candidate by
  the aggregate score of the first candidate, and zero when that score is zero; the
  quotient of doubles is the exact quotient rounded, within a relative error of \<open>2\<^sup>-\<^sup>5\<^sup>3\<close>.
  In a list that the pipeline returns the first candidate's aggregate score is positive,
  and the first recommendation has the score 1 exactly.
\<close>

theorem normalized_scores:
  "(\<forall>i < length fe.
      rec_score (build_recommendations fe ! i) =
        Some (if score (fst (snd (hd fe))) \<noteq> 0
              then float_div (score (fst (snd (fe ! i)))) (score (fst (snd (hd fe))))
              else 0)) \<and>
   (0 < x \<and> 0 < y \<longrightarrow>
      \<bar>float_div x y - of_int x / of_int y\<bar> \<le> of_int x / of_int y / 2 ^ 53) \<and>
   (fst (run_cme_query vs llm db r k m) = Inr (a, recs) \<and> recs \<noteq> [] \<longrightarrow>
      rec_score (hd recs) = Some 1 \<and>
      (\<exists>chs. vs (strip (req_question r)) k = Inr (200, chs) \<and>
         recs = build_recommendations
                  (candidates db (build_effective_physician_profile db r) m chs) \<and>
         0 < score (fst (snd (hd (candidates db (build_effective_physician_profile db r) m chs))))))"
proof -
  let ?prof = "build_effective_physician_profile db r"
  have part1: "\<forall>i < length fe.
      rec_score (build_recommendations fe ! i) =
        Some (if score (fst (snd (hd fe))) \<noteq> 0
              then float_div (score (fst (snd (fe ! i)))) (score (fst (snd (hd fe))))
              else 0)"
    by (simp add: nth_build_recommendations score_make_recommendation)
  have part2: "\<bar>float_div x y - of_int x / of_int y\<bar> \<le> of_int x / of_int y / 2 ^ 53"
    if "0 < x \<and> 0 < y"
    using that float_div_close [of x y] by blast
  have part3: "rec_score (hd recs) = Some 1 \<and>
      (\<exists>chs. vs (strip (req_question r)) k = Inr (200, chs) \<and>
         recs = build_recommendations (candidates db ?prof m chs) \<and>
         0 < score (fst (snd (hd (candidates db ?prof m chs)))))"
    if asm: "fst (run_cme_query vs llm db r k m) = Inr (a, recs) \<and> recs \<noteq> []"
  proof -
    from run_recs_cases [of vs llm db r k m a recs] asm obtain chs where
      chs: "vs (strip (req_question r)) k = Inr (200, chs)"
           "candidates db ?prof m chs \<noteq> []"
           "recs = build_recommendations (candidates db ?prof m chs)" by blast
    let ?fe = "candidates db ?prof m chs"
    from chs(2) have "hd ?fe \<in> set ?fe" by simp
    then have "(fst (hd ?fe), fst (snd (hd ?fe)), snd (snd (hd ?fe))) \<in> set ?fe" by simp
    then have pos: "0 < score (fst (snd (hd ?fe)))" by (rule candidates_score_pos)
    from chs(2) have len: "0 < length ?fe" by simp
    have "hd recs = recs ! 0" using asm by (simp add: hd_conv_nth)
    also have "\<dots> = make_recommendation (score (fst (snd (hd ?fe)))) (Suc 0, ?fe ! 0)"
      unfolding chs(3) using len by (rule nth_build_recommendations)
    finally have "rec_score (hd recs) = Some 1"
      using pos len by (simp add: score_make_recommendation hd_conv_nth float_div_self)
    with chs pos show ?thesis by blast
  qed
  from part1 part2 part3 show ?thesis by blast
qed

theorem normalized_scores_witness:
  "fst (run_cme_query (search_returning chunks_1_1_2) llm_down db_two_events
          (example_request ''sepsis'' None) 24 5)
     = Inr (llm_fallback_answer,
            [example_recommendation 1 ''Sepsis update'' 1 1,
             example_recommendation 2 ''Airway management''
               (3602879701896397 / 18014398509481984) 2]) \<and>
   [example_recommendation 1 ''Sepsis update'' 1 1,
    example_recommendation 2 ''Airway management''
      (3602879701896397 / 18014398509481984) 2] \<noteq> [] \<and>
   rec_score (hd [example_recommendation 1 ''Sepsis update'' 1 1,
                  example_recommendation 2 ''Airway management''
                    (3602879701896397 / 18014398509481984) 2]) = Some 1"
proof -
  have h: "fst (run_cme_query (search_returning chunks_1_1_2) llm_down db_two_events
          (example_request ''sepsis'' None) 24 5)
     = Inr (llm_fallback_answer,
            [example_recommendation 1 ''Sepsis update'' 1 1,
             example_recommendation 2 ''Airway management''
               (3602879701896397 / 18014398509481984) 2])"
    by code_simp
  have ne: "[example_recommendation 1 ''Sepsis update'' 1 1,
             example_recommendation 2 ''Airway management''
               (3602879701896397 / 18014398509481984) 2] \<noteq> []" by simp
  from normalized_scores [THEN conjunct2, THEN conjunct2, rule_format, OF conjI [OF h ne]]
  have "rec_score (hd [example_recommendation 1 ''Sepsis update'' 1 1,
                  example_recommendation 2 ''Airway management''
                    (3602879701896397 / 18014398509481984) 2]) = Some 1"
    by blast
  with h ne show ?thesis by blast
qed

text \<open>
  Claim C10: two requests that differ in \<open>credit_type\<close> only, run against the same
  similarity search and the same database, end in the same error or in the same
  recommendation list, whatever the language model answers in either run.
\<close>

theorem credit_type_does_not_change_recommendations:
  "map_sum id snd (fst (run_cme_query vs llm1 db (r\<lparr>req_credit_type := ct\<rparr>) k m)) =
   map_sum id snd (fst (run_cme_query vs llm2 db r k m))"
  by (simp add: run_cme_query_def Let_def profile_credit_type candidates_credit_type
        split: sum.splits prod.splits)

text \<open>
  Claim C3 does not hold of the code: the profile builder never reads the field
  \<open>travel_ok\<close> of the request. A request that supplies \<open>travel_ok = False\<close> and no
  physician id gets a profile whose \<open>travel_ok\<close> is true.
\<close>

theorem request_travel_ok_ignored:
  "req_travel_ok ((example_request ''sepsis'' None)\<lparr>req_travel_ok := Some False\<rparr>) = Some False \<and>
   prof_travel_ok
     (build_effective_physician_profile (example_db [] [])
        ((example_request ''sepsis'' None)\<lparr>req_travel_ok := Some False\<rparr>)) = Some True"
  by code_simp

text \<open>
  Claim C9 does not hold of the code: an event whose title is the empty string gets a
  recommendation whose title is the empty string, not the placeholder made from its id.
\<close>

theorem empty_title_not_replaced:
  "ev_title (example_event 1 []) = [] \<and>
   fst (run_cme_query (search_returning [example_chunk 1]) llm_down db_untitled
          (example_request ''sepsis'' None) 24 5)
     = Inr (llm_fallback_answer, [example_recommendation 1 [] 1 1]) \<and>
   rec_title (example_recommendation 1 [] 1 1) = [] \<and>
   placeholder_title 1 = ''CME 1''"
  by code_simp

end
